theory Spec2Isabelle
  imports Main "HOL-Library.Word"
begin

section \<open>ComposerButtonBonanza: the layout parser and the action resolver\<close>

text \<open>
  A shallow embedding of \<^verbatim>\<open>javascripts/discourse/api-initializers/api-initializer.js\<close>.
  Configuration strings (button names, layout tokens, keys) are \<^typ>\<open>string\<close>; the text of
  the editor's selection, which \<^verbatim>\<open>trimLeading\<close> scans code unit by code unit, is a list of
  UTF-16 code units (\<^typ>\<open>16 word\<close>). Mutable module state (\<^verbatim>\<open>TOGGLE_GROUPS\<close>,
  \<^verbatim>\<open>i18nProperties\<close>, the adopted style sheets and the variables captured by closures) is
  passed explicitly; a \<^verbatim>\<open>throw\<close> is a value \<open>Inl e\<close>; a closure is a value of the
  datatype \<open>action\<close>, run by \<open>perform\<close>.

  The host is not modelled beyond what the program gives it: a call of
  \<^verbatim>\<open>toolbar.addButton\<close>, \<^verbatim>\<open>api.addComposerToolbarPopupMenuOption\<close>,
  \<^verbatim>\<open>stylesheet.insertRule\<close> or of a method of the edit context is recorded with its
  arguments and returns normally. The other source file, an earlier variant of the same
  initializer that tests the view inside \<^verbatim>\<open>parseLayout\<close>, is not the one embedded here.
\<close>

subsection \<open>JavaScript values and plain objects\<close>

text \<open>The values a setting's field can hold, as far as the program distinguishes them.\<close>

datatype jsval = Undefined | Null | JBool bool | JStr string

text \<open>Truthiness, as tested by \<^verbatim>\<open>!x\<close>, \<^verbatim>\<open>!!x\<close>, \<^verbatim>\<open>x ? a : b\<close> and \<^verbatim>\<open>if (x)\<close>.\<close>

fun truthy :: "jsval \<Rightarrow> bool" where
  "truthy Undefined = False"
| "truthy Null = False"
| "truthy (JBool b) = b"
| "truthy (JStr s) = (s \<noteq> [])"

text \<open>String conversion, as done by a template literal and by a property key.\<close>

fun toString_js :: "jsval \<Rightarrow> string" where
  "toString_js Undefined = ''undefined''"
| "toString_js Null = ''null''"
| "toString_js (JBool b) = (if b then ''true'' else ''false'')"
| "toString_js (JStr s) = s"

text \<open>A field that is either a string or \<^verbatim>\<open>undefined\<close> (an array read past the end).\<close>

definition key_of :: "string option \<Rightarrow> string" where
  "key_of x = (case x of None \<Rightarrow> ''undefined'' | Some s \<Rightarrow> s)"

definition at :: "'a list \<Rightarrow> nat \<Rightarrow> 'a option" where
  "at xs i = (if i < length xs then Some (xs ! i) else None)"

text \<open>
  \<^verbatim>\<open>SECTIONS\<close>, \<^verbatim>\<open>BUTTONS\<close> and \<^verbatim>\<open>TOGGLE_GROUPS\<close> are plain objects (an object
  literal, \<^verbatim>\<open>Object.fromEntries\<close>, \<^verbatim>\<open>{}\<close>), so their prototype is
  \<^verbatim>\<open>Object.prototype\<close>: a read \<^verbatim>\<open>obj[k]\<close> and the test \<^verbatim>\<open>k in obj\<close> see the
  object's own properties first and then the properties of \<^verbatim>\<open>Object.prototype\<close>.
\<close>

definition objectPrototypeKeys :: "string list" where
  "objectPrototypeKeys =
     [''constructor'', ''hasOwnProperty'', ''isPrototypeOf'', ''propertyIsEnumerable'',
      ''toLocaleString'', ''toString'', ''valueOf'', ''__proto__'',
      ''__defineGetter__'', ''__defineSetter__'', ''__lookupGetter__'', ''__lookupSetter__'']"

datatype 'a property = Own 'a | Inherited | Missing

text \<open>
  \<open>get_property obj k\<close> is the read \<^verbatim>\<open>obj[k]\<close>: \<open>Own v\<close> for an own property,
  \<open>Inherited\<close> for a member of \<^verbatim>\<open>Object.prototype\<close> (a function, or the prototype object
  itself: truthy, without an element \<^verbatim>\<open>0\<close>, without \<^verbatim>\<open>push\<close>, not iterable),
  \<open>Missing\<close> for \<^verbatim>\<open>undefined\<close>. \<open>has_property\<close> is the operator \<^verbatim>\<open>in\<close>.
\<close>

definition get_property :: "(string \<rightharpoonup> 'a) \<Rightarrow> string \<Rightarrow> 'a property" where
  "get_property obj k =
     (case obj k of
        Some v \<Rightarrow> Own v
      | None \<Rightarrow> if k \<in> set objectPrototypeKeys then Inherited else Missing)"

definition has_property :: "(string \<rightharpoonup> 'a) \<Rightarrow> string \<Rightarrow> bool" where
  "has_property obj k = (get_property obj k \<noteq> Missing)"

text \<open>\<^verbatim>\<open>s.split(d)\<close> for a one-character separator: the result is never empty.\<close>

fun split :: "char \<Rightarrow> string \<Rightarrow> string list" where
  "split d [] = [[]]"
| "split d (c # cs) =
     (if c = d then [] # split d cs
      else (case split d cs of [] \<Rightarrow> [[c]] | w # ws \<Rightarrow> (c # w) # ws))"

text \<open>The inverse, \<^verbatim>\<open>fields.join(d)\<close>, used to state properties of \<open>split\<close>.\<close>

fun join :: "char \<Rightarrow> string list \<Rightarrow> string" where
  "join d [] = []"
| "join d [w] = w"
| "join d (w # v # ws) = w @ d # join d (v # ws)"

subsection \<open>Constants and identifiers\<close>

definition CBBKEY :: string where
  "CBBKEY = ''ComposerButtonBonanza''"

definition makeButtonIdentifier :: "string \<Rightarrow> string" where
  "makeButtonIdentifier buttonName = CBBKEY @ ''-btn-'' @ buttonName"

datatype place = TOOLBAR | GEARMENU

text \<open>A value of \<^verbatim>\<open>SECTIONS\<close> is the array \<^verbatim>\<open>[place, group]\<close> or \<^verbatim>\<open>[place]\<close>.\<close>

definition SECTIONS :: "string \<rightharpoonup> place \<times> string option" where
  "SECTIONS = map_of
     [(''STYLES'', (TOOLBAR, Some ''fontStyles'')),
      (''INSERTIONS'', (TOOLBAR, Some ''insertions'')),
      (''EXTRAS'', (TOOLBAR, Some ''extras'')),
      (''GEARMENU'', (GEARMENU, None))]"

subsection \<open>The layout parser\<close>

record buttonSpec =
  name :: "string option"
  shortcut :: "string option"
  toggleGroup :: "string option"

record layoutEntry =
  buttonSpec :: buttonSpec
  allowDesktop :: bool
  allowMobile :: bool

text \<open>An entry of the plan's toolbar list also has the toolbar group (the source's field \<^verbatim>\<open>section\<close>).\<close>

record toolbarEntry = layoutEntry +
  zone :: "string option"

definition specOf :: "string list \<Rightarrow> buttonSpec" where
  "specOf pieces = \<lparr>name = at pieces 0, shortcut = at pieces 1, toggleGroup = at pieces 2\<rparr>"

definition parseLayoutEntry :: "string \<Rightarrow> layoutEntry" where
  "parseLayoutEntry entry =
     (let pieces = split CHR '','' entry in
      if at pieces 0 = Some ''X'' then
        \<lparr>buttonSpec = specOf (tl pieces), allowDesktop = False, allowMobile = False\<rparr>
      else if at pieces 0 = Some ''M'' then
        \<lparr>buttonSpec = specOf (tl pieces), allowDesktop = False, allowMobile = True\<rparr>
      else if at pieces 0 = Some ''D'' then
        \<lparr>buttonSpec = specOf (tl pieces), allowDesktop = True, allowMobile = False\<rparr>
      else
        \<lparr>buttonSpec = specOf pieces, allowDesktop = True, allowMobile = True\<rparr>)"

datatype error =
    UnknownButton string
  | UnknownPlacementType
  | NoButtonsAssigned string string
  | UnknownAction string jsval
  | TypeError

record plan =
  toolbar :: "toolbarEntry list"
  gearmenu :: "layoutEntry list"

text \<open>
  The state of the loop of \<^verbatim>\<open>parseLayout\<close>: the plan built so far, \<^verbatim>\<open>currentSection\<close>
  (\<open>Own\<close> an array of \<^verbatim>\<open>SECTIONS\<close>, or \<open>Inherited\<close>), the module variable
  \<^verbatim>\<open>TOGGLE_GROUPS\<close> (the field \<open>toggleGroups\<close>), and what \<^verbatim>\<open>console.error\<close> was given by the \<^verbatim>\<open>catch\<close>.
\<close>

record parser =
  result :: plan
  currentSection :: "(place \<times> string option) property"
  toggleGroups :: "string \<rightharpoonup> buttonSpec list"
  console :: "(string \<times> error) list"

text \<open>
  Lines 413 to 417: \<^verbatim>\<open>TOGGLE_GROUPS[g] ||= []; TOGGLE_GROUPS[g].push(buttonSpec)\<close> for a
  truthy \<^verbatim>\<open>g\<close>. An inherited member is truthy, so nothing is assigned, and it has no
  \<^verbatim>\<open>push\<close>: the call raises a TypeError.
\<close>

definition joinToggleGroup ::
  "(string \<rightharpoonup> buttonSpec list) \<Rightarrow> buttonSpec \<Rightarrow> error + (string \<rightharpoonup> buttonSpec list)" where
  "joinToggleGroup groups spec =
     (case toggleGroup spec of
        None \<Rightarrow> Inr groups
      | Some g \<Rightarrow>
          if g = [] then Inr groups
          else (case get_property groups g of
                  Own members \<Rightarrow> Inr (groups(g \<mapsto> members @ [spec]))
                | Inherited \<Rightarrow> Inl TypeError
                | Missing \<Rightarrow> Inr (groups(g \<mapsto> [spec]))))"

text \<open>Lines 420 to 438: the \<^verbatim>\<open>switch\<close> on \<^verbatim>\<open>currentSection[0]\<close>.\<close>

definition place_entry ::
  "(place \<times> string option) property \<Rightarrow> layoutEntry \<Rightarrow> plan \<Rightarrow> error + plan" where
  "place_entry cur e p =
     (case cur of
        Own (TOOLBAR, z) \<Rightarrow>
          Inr (p\<lparr>toolbar := toolbar p @
                 [\<lparr>buttonSpec = buttonSpec e, allowDesktop = allowDesktop e,
                   allowMobile = allowMobile e, zone = z\<rparr>]\<rparr>)
      | Own (GEARMENU, z) \<Rightarrow> Inr (p\<lparr>gearmenu := gearmenu p @ [e]\<rparr>)
      | _ \<Rightarrow> Inl UnknownPlacementType)"

text \<open>One iteration of the loop, lines 397 to 441, with its \<^verbatim>\<open>try\<close> and \<^verbatim>\<open>catch\<close>.\<close>

definition parse_token :: "(string \<rightharpoonup> 'd) \<Rightarrow> parser \<Rightarrow> string \<Rightarrow> parser" where
  "parse_token btns st entry =
     (if has_property SECTIONS entry then
        st\<lparr>currentSection := get_property SECTIONS entry\<rparr>
      else
        let e = parseLayoutEntry entry in
        if \<not> has_property btns (key_of (name (buttonSpec e))) then
          st\<lparr>console := console st @ [(entry, UnknownButton (key_of (name (buttonSpec e))))]\<rparr>
        else
          (case joinToggleGroup (toggleGroups st) (buttonSpec e) of
             Inl err \<Rightarrow> st\<lparr>console := console st @ [(entry, err)]\<rparr>
           | Inr groups \<Rightarrow>
               (case place_entry (currentSection st) e (result st) of
                  Inl err \<Rightarrow>
                    st\<lparr>toggleGroups := groups, console := console st @ [(entry, err)]\<rparr>
                | Inr p \<Rightarrow> st\<lparr>toggleGroups := groups, result := p\<rparr>)))"

definition parser_init :: parser where
  "parser_init =
     \<lparr>result = \<lparr>toolbar = [], gearmenu = []\<rparr>,
      currentSection = get_property SECTIONS ''EXTRAS'',
      toggleGroups = Map.empty,
      console = []\<rparr>"

text \<open>
  \<^verbatim>\<open>parseLayout\<close>, run on the empty \<^verbatim>\<open>TOGGLE_GROUPS\<close> that the initializer assigns just
  before the call, for the object \<open>btns\<close> of the configured buttons. The source returns
  \<open>result\<close> and leaves the groups in the module variable.
\<close>

definition parseLayout :: "(string \<rightharpoonup> 'd) \<Rightarrow> string \<Rightarrow> parser" where
  "parseLayout btns layout = foldl (parse_token btns) parser_init (split CHR ''|'' layout)"

subsection \<open>Settings and module variables\<close>

text \<open>
  Modelled from the spec: the schema of the settings (\<^verbatim>\<open>settings.yml\<close>) is not among the
  sources. The spec gives a translation override a key and a replacement text, so both are
  strings here; a button definition has a name, and its other fields, which may be absent or
  of another type, are \<^typ>\<open>jsval\<close>.
\<close>

record translation =
  tr_key :: string
  tr_value :: string

record locale_translations =
  lt_locale :: string
  lt_translations :: "translation list"

record button_definition =
  def_name :: string
  action :: jsval
  prefix :: jsval
  suffix :: jsval
  exampleText :: jsval
  lineMode :: jsval
  groupName :: jsval
  startHidden :: jsval
  title :: jsval
  nonIcon :: jsval
  svg_icon :: jsval
  popupHover :: jsval

record settings =
  buttons :: "button_definition list"
  translations_setting :: "locale_translations list"
  layout :: string

text \<open>
  The module variables read after the parse, and the one global the module reads without
  declaring it: the free identifier \<^verbatim>\<open>name\<close> of lines 299 and 330 is the property
  \<^verbatim>\<open>name\<close> of the global object (\<^verbatim>\<open>window.name\<close>, a string).
\<close>

record globals =
  BUTTONS :: "string \<rightharpoonup> button_definition"
  TRANSLATIONS :: "translation list option"
  TOGGLE_GROUPS :: "string \<rightharpoonup> buttonSpec list"
  globalName :: string

subsection \<open>Translations and the localization table\<close>

definition applyTranslation :: "globals \<Rightarrow> jsval \<Rightarrow> string \<Rightarrow> string \<Rightarrow> jsval" where
  "applyTranslation g defaultValue buttonName paramName =
     (case TRANSLATIONS g of
        None \<Rightarrow> defaultValue
      | Some ts \<Rightarrow>
          (case find (\<lambda>e. tr_key e = buttonName @ ''.'' @ paramName) ts of
             None \<Rightarrow> defaultValue
           | Some e \<Rightarrow> JStr (tr_value e)))"

record stylesheet =
  disabled :: bool
  cssRules :: "string list"

text \<open>The variables \<^verbatim>\<open>isHidden\<close> and \<^verbatim>\<open>stylesheet\<close> that one toggle callback closes over.\<close>

record toggle_closure =
  isHidden :: bool
  sheet :: stylesheet

text \<open>
  What construction and clicks mutate: the table \<^verbatim>\<open>i18nProperties\<close>, addressed by the path
  \<^verbatim>\<open>[buttonName][propName]\<close>, and the environments of the toggle callbacks built so far,
  in the order in which their style sheets were pushed on \<^verbatim>\<open>document.adoptedStyleSheets\<close>.
\<close>

record world =
  i18nProperties :: "string \<times> string \<rightharpoonup> jsval"
  closures :: "toggle_closure list"

definition setI18nProperty :: "string \<Rightarrow> string \<Rightarrow> jsval \<Rightarrow> world \<Rightarrow> string option \<times> world" where
  "setI18nProperty buttonName propName propValue w =
     (if \<not> truthy propValue then (None, w)
      else (Some (CBBKEY @ ''.'' @ buttonName @ ''.'' @ propName),
            w\<lparr>i18nProperties := (i18nProperties w)((buttonName, propName) \<mapsto> propValue)\<rparr>))"

subsection \<open>The selection and \<^verbatim>\<open>trimLeading\<close>\<close>

text \<open>
  The two fields of \<^verbatim>\<open>toolbarEvent.selected\<close> that the program reads and writes
  (\<^verbatim>\<open>start\<close> and \<^verbatim>\<open>value\<close>); the offset is a length of text, a natural number.
\<close>

record selection =
  sel_start :: nat
  sel_value :: "16 word list"

text \<open>The code units that \<^verbatim>\<open>/\s/\<close> matches: ECMAScript's WhiteSpace and LineTerminator.\<close>

definition is_whitespace :: "16 word \<Rightarrow> bool" where
  "is_whitespace c =
     (c \<in> {0x0009, 0x000A, 0x000B, 0x000C, 0x000D, 0x0020, 0x00A0, 0x1680,
           0x2028, 0x2029, 0x202F, 0x205F, 0x3000, 0xFEFF}
      \<or> (0x2000 \<le> c \<and> c \<le> 0x200A))"

text \<open>The \<^verbatim>\<open>while\<close> loop of lines 102 to 105, from the index \<open>freshStart\<close>.\<close>

function scanWhitespace :: "16 word list \<Rightarrow> nat \<Rightarrow> nat" where
  "scanWhitespace v freshStart =
     (if freshStart < length v \<and> is_whitespace (v ! freshStart)
      then scanWhitespace v (Suc freshStart) else freshStart)"
  by pat_completeness auto
termination
  by (relation "measure (\<lambda>(v, freshStart). length v - freshStart)") auto

declare scanWhitespace.simps [simp del]

definition trimLeading :: "selection \<Rightarrow> selection" where
  "trimLeading sel =
     (let freshStart = scanWhitespace (sel_value sel) 0 in
      if freshStart > 0 then
        sel\<lparr>sel_start := sel_start sel + freshStart,
            sel_value := drop freshStart (sel_value sel)\<rparr>
      else sel)"

subsection \<open>Actions\<close>

text \<open>The calls a callback makes on the edit context, in order.\<close>

datatype edit_call =
    AddText jsval
  | ApplySurround jsval jsval "string option" bool bool
  | ApplyList jsval "string option" bool bool

record toolbarEvent =
  selected :: selection
  edits :: "edit_call list"

text \<open>
  One constructor for each place where the source builds a callback: the four
  \<^verbatim>\<open>make...Action\<close> functions, with the values the closure captures (for a toggle the
  index of its environment in \<open>closures\<close>), and the wrapper of lines 332 to 335.
\<close>

datatype action =
    InsertAction jsval
  | SurroundAction jsval jsval "string option" jsval
  | ListAction jsval "string option" jsval
  | ToggleAction nat
  | PopupAction action

definition flip :: "toggle_closure \<Rightarrow> toggle_closure" where
  "flip c =
     (let hidden = \<not> isHidden c in
      \<lparr>isHidden = hidden, sheet = (sheet c)\<lparr>disabled := \<not> hidden\<rparr>\<rparr>)"

text \<open>Calling a callback. A toggle built by \<open>makeToggleAction\<close> always finds its environment.\<close>

fun perform :: "action \<Rightarrow> toolbarEvent \<Rightarrow> world \<Rightarrow> toolbarEvent \<times> world" where
  "perform (InsertAction txt) ev w = (ev\<lparr>edits := edits ev @ [AddText txt]\<rparr>, w)"
| "perform (SurroundAction head tail exampleTextKey mode) ev w =
     (ev\<lparr>edits := edits ev @
          [ApplySurround head tail exampleTextKey (mode = JStr ''multiline'') (mode = JStr ''block'')]\<rparr>,
      w)"
| "perform (ListAction head exampleTextKey mode) ev w =
     (ev\<lparr>edits := edits ev @
          [ApplyList head exampleTextKey (mode = JStr ''multiline'') (mode = JStr ''block'')]\<rparr>,
      w)"
| "perform (ToggleAction i) ev w =
     (if i < length (closures w)
      then (ev, w\<lparr>closures := (closures w)[i := flip (closures w ! i)]\<rparr>)
      else (ev, w))"
| "perform (PopupAction act) ev w = perform act (ev\<lparr>selected := trimLeading (selected ev)\<rparr>) w"

definition makeInsertAction :: "string \<Rightarrow> jsval \<Rightarrow> action" where
  "makeInsertAction buttonName txt = InsertAction txt"

definition makeSurroundAction ::
  "string \<Rightarrow> jsval \<Rightarrow> jsval \<Rightarrow> jsval \<Rightarrow> jsval \<Rightarrow> world \<Rightarrow> action \<times> world" where
  "makeSurroundAction buttonName head tail example mode w =
     (let (exampleTextKey, w') = setI18nProperty buttonName ''exampleText'' example w
      in (SurroundAction head tail exampleTextKey mode, w'))"

definition makeListAction ::
  "string \<Rightarrow> jsval \<Rightarrow> jsval \<Rightarrow> jsval \<Rightarrow> world \<Rightarrow> action \<times> world" where
  "makeListAction buttonName head example mode w =
     (let (exampleTextKey, w') = setI18nProperty buttonName ''exampleText'' example w
      in (ListAction head exampleTextKey mode, w'))"

text \<open>\<^verbatim>\<open>insertRule\<close> without an index inserts at position 0.\<close>

definition insertRule :: "string \<Rightarrow> stylesheet \<Rightarrow> stylesheet" where
  "insertRule rule s = s\<lparr>cssRules := rule # cssRules s\<rparr>"

definition hideRules :: "stylesheet \<Rightarrow> buttonSpec \<Rightarrow> stylesheet" where
  "hideRules s spec =
     (let identifier = makeButtonIdentifier (key_of (name spec)) in
      insertRule (''[data-name='' @ [CHR 0x22] @ identifier @ [CHR 0x22]
                   @ ''] { display: none !important; }'')
        (insertRule (''.'' @ identifier @ '' { display: none !important; }'') s))"

text \<open>
  An inherited member passes the test of line 155 (it is truthy); the \<^verbatim>\<open>for ... of\<close> of
  line 169 then raises a TypeError, since it is not iterable, before the sheet is adopted.
\<close>

definition makeToggleAction ::
  "globals \<Rightarrow> string \<Rightarrow> jsval \<Rightarrow> jsval \<Rightarrow> world \<Rightarrow> (error + action) \<times> world" where
  "makeToggleAction g buttonName grp startHid w =
     (case get_property (TOGGLE_GROUPS g) (toString_js grp) of
        Missing \<Rightarrow> (Inl (NoButtonsAssigned (toString_js grp) buttonName), w)
      | Inherited \<Rightarrow> (Inl TypeError, w)
      | Own members \<Rightarrow>
          (let hidden = truthy startHid;
               s = foldl hideRules \<lparr>disabled = \<not> hidden, cssRules = []\<rparr> members
           in (Inr (ToggleAction (length (closures w))),
               w\<lparr>closures := closures w @ [\<lparr>isHidden = hidden, sheet = s\<rparr>]\<rparr>)))"

definition makeAction ::
  "globals \<Rightarrow> string \<Rightarrow> button_definition \<Rightarrow> world \<Rightarrow> (error + action) \<times> world" where
  "makeAction g buttonName d w =
     (if action d = JStr ''insert'' then
        (Inr (makeInsertAction buttonName (applyTranslation g (prefix d) buttonName ''prefix'')), w)
      else if action d = JStr ''surround'' then
        (let (act, w') = makeSurroundAction buttonName
                           (applyTranslation g (prefix d) buttonName ''prefix'')
                           (applyTranslation g (suffix d) buttonName ''suffix'')
                           (applyTranslation g (exampleText d) buttonName ''exampleText'')
                           (lineMode d) w
         in (Inr act, w'))
      else if action d = JStr ''list'' then
        (let (act, w') = makeListAction buttonName
                           (applyTranslation g (prefix d) buttonName ''prefix'')
                           (applyTranslation g (exampleText d) buttonName ''exampleText'')
                           (lineMode d) w
         in (Inr act, w'))
      else if action d = JStr ''toggleGroup'' then
        makeToggleAction g buttonName
          (applyTranslation g (groupName d) buttonName ''groupName'')
          (applyTranslation g (startHidden d) buttonName ''startHidden'') w
      else (Inl (UnknownAction buttonName (action d)), w))"

subsection \<open>Registering buttons\<close>

record button_options =
  opt_icon :: jsval
  opt_nonIconKey :: "string option"
  opt_titleKey :: string
  opt_elementId :: string
  opt_action :: action
  opt_buttonName :: string
  opt_definition :: button_definition

text \<open>
  What a read of a field gives on a member of \<^verbatim>\<open>Object.prototype\<close>: none of the fields
  the program reads from a definition exists there, so each is \<^verbatim>\<open>undefined\<close>.
\<close>

definition prototypeMember :: button_definition where
  "prototypeMember =
     \<lparr>def_name = [], action = Undefined, prefix = Undefined, suffix = Undefined,
      exampleText = Undefined, lineMode = Undefined, groupName = Undefined,
      startHidden = Undefined, title = Undefined, nonIcon = Undefined,
      svg_icon = Undefined, popupHover = Undefined\<rparr>"

text \<open>
  \<^verbatim>\<open>buttonSpec.name\<close> is a string or \<^verbatim>\<open>undefined\<close>; every use of \<^verbatim>\<open>buttonName\<close> is as
  a property key or inside a template literal, so it is converted to a string once, here.
  The title is registered before the action is built: a failing \<open>makeAction\<close> leaves it in
  the table.
\<close>

definition makeCommonButtonOptions ::
  "globals \<Rightarrow> buttonSpec \<Rightarrow> world \<Rightarrow> (error + button_options) \<times> world" where
  "makeCommonButtonOptions g spec w =
     (let buttonName = key_of (name spec) in
      case get_property (BUTTONS g) buttonName of
        Missing \<Rightarrow> (Inl TypeError, w)
      | found \<Rightarrow>
          (let d = (case found of Own d' \<Rightarrow> d' | _ \<Rightarrow> prototypeMember);
               (titleKey, w1) = setI18nProperty buttonName ''title''
                                  (applyTranslation g (title d) buttonName ''title'') w
           in case makeAction g buttonName d w1 of
                (Inl err, w2) \<Rightarrow> (Inl err, w2)
              | (Inr act, w2) \<Rightarrow>
                  (let (nonIconKey, w3) = setI18nProperty buttonName ''nonIcon''
                                            (applyTranslation g (nonIcon d) buttonName ''nonIcon'') w2
                   in (Inr \<lparr>opt_icon = svg_icon d,
                            opt_nonIconKey = map_option (\<lambda>k. ''composer.'' @ k) nonIconKey,
                            opt_titleKey = ''composer.'' @
                              (case titleKey of None \<Rightarrow> ''null'' | Some k \<Rightarrow> k),
                            opt_elementId = makeButtonIdentifier buttonName,
                            opt_action = act,
                            opt_buttonName = buttonName,
                            opt_definition = d\<rparr>, w3))))"



text \<open>
  The option record given to \<^verbatim>\<open>api.addComposerToolbarPopupMenuOption\<close>. The condition
  callback reads \<^verbatim>\<open>!!composer.site.desktopView\<close>, its argument here.
\<close>

record popup_option =
  pm_icon :: jsval
  pm_label :: string
  pm_title :: string
  pm_name :: string
  pm_shortcut :: "string option"
  pm_action :: action
  pm_condition :: "bool \<Rightarrow> bool"

definition addPopupMenuButtonWithCondition ::
  "globals \<Rightarrow> popup_option list \<Rightarrow> buttonSpec \<Rightarrow> bool \<Rightarrow> bool \<Rightarrow> world
     \<Rightarrow> (error + popup_option list) \<times> world" where
  "addPopupMenuButtonWithCondition g api spec allowD allowM w =
     (case makeCommonButtonOptions g spec w of
        (Inl err, w') \<Rightarrow> (Inl err, w')
      | (Inr opts, w') \<Rightarrow>
          (let (hoverKey, w2) =
                 setI18nProperty (opt_buttonName opts) ''hover''
                   (applyTranslation g (popupHover (opt_definition opts))
                      (opt_buttonName opts) ''popupHover'') w'
           in (Inr (api @
                 [\<lparr>pm_icon = opt_icon opts,
                   pm_label = opt_titleKey opts,
                   pm_title = (case hoverKey of
                                 Some k \<Rightarrow> ''composer.'' @ k
                               | None \<Rightarrow> opt_titleKey opts),
                   pm_name = globalName g,
                   pm_shortcut = shortcut spec,
                   pm_action = PopupAction (opt_action opts),
                   pm_condition = (\<lambda>isDesktop.
                      (isDesktop \<and> allowD) \<or> (\<not> isDesktop \<and> allowM))\<rparr>]), w2)))"

subsection \<open>The initializer\<close>

text \<open>What the initializer leaves behind: the module variables, the plan, the registered popup
  options, the mutable state and the errors given to \<^verbatim>\<open>console.error\<close>.\<close>

record component =
  vars :: globals
  plan_of :: plan
  popupMenu :: "popup_option list"
  state :: world
  errors :: "error list"

definition registerPopup ::
  "globals \<Rightarrow> popup_option list \<times> error list \<times> world \<Rightarrow> layoutEntry
     \<Rightarrow> popup_option list \<times> error list \<times> world" where
  "registerPopup g acc entry =
     (case acc of (api, errs, w) \<Rightarrow>
        (case addPopupMenuButtonWithCondition g api (buttonSpec entry)
                (allowDesktop entry) (allowMobile entry) w of
           (Inl err, w') \<Rightarrow> (api, errs @ [err], w')
         | (Inr api', w') \<Rightarrow> (api', errs, w')))"

text \<open>
  Lines 447 to 480. \<^verbatim>\<open>Object.fromEntries\<close> keeps the last of several definitions with one
  name; \<^verbatim>\<open>find\<close> takes the first record of the current locale.
\<close>

definition initializer :: "settings \<Rightarrow> string \<Rightarrow> string \<Rightarrow> component" where
  "initializer st currentLocale windowName =
     (let btns = map_of (rev (map (\<lambda>s. (def_name s, s)) (buttons st)));
          trs = map_option lt_translations
                  (find (\<lambda>t. lt_locale t = currentLocale) (translations_setting st));
          parsed = parseLayout btns (layout st);
          g = \<lparr>BUTTONS = btns, TRANSLATIONS = trs,
               TOGGLE_GROUPS = toggleGroups parsed, globalName = windowName\<rparr>;
          (api, errs, w) = foldl (registerPopup g)
                             ([], [], \<lparr>i18nProperties = Map.empty, closures = []\<rparr>)
                             (gearmenu (result parsed))
      in \<lparr>vars = g, plan_of = result parsed, popupMenu = api, state = w, errors = errs\<rparr>)"





subsection \<open>Notions used to state the properties\<close>

text \<open>A sequence of clicks, each the call of some callback on its own edit context.\<close>

fun run :: "(action \<times> toolbarEvent) list \<Rightarrow> world \<Rightarrow> world" where
  "run [] w = w"
| "run ((act, ev) # cs) w = run cs (snd (perform act ev w))"

text \<open>The environment \<open>i\<close> exists and its sheet is enabled exactly when the group is hidden.\<close>

definition consistent :: "nat \<Rightarrow> world \<Rightarrow> bool" where
  "consistent i w =
     (i < length (closures w)
      \<and> disabled (sheet (closures w ! i)) = (\<not> isHidden (closures w ! i)))"


definition emptyWorld :: world where
  "emptyWorld = \<lparr>i18nProperties = Map.empty, closures = []\<rparr>"







text \<open>A key that a plain object inherits from \<^verbatim>\<open>Object.prototype\<close>.\<close>

definition inheritedName :: "string \<Rightarrow> bool" where
  "inheritedName k = (k \<in> set objectPrototypeKeys)"

text \<open>A layout token that is not such a key, and whose button name and toggle-group are not.\<close>

definition plainToken :: "string \<Rightarrow> bool" where
  "plainToken t =
     (\<not> inheritedName t
      \<and> \<not> inheritedName (key_of (name (buttonSpec (parseLayoutEntry t))))
      \<and> \<not> inheritedName (key_of (toggleGroup (buttonSpec (parseLayoutEntry t)))))"

text \<open>
  The spec's reading of the token sequence: a section keyword switches the current placement
  target and yields nothing; any other token is a button entry, paired with the target
  current at that token.
\<close>

fun spec_targets :: "place \<times> string option \<Rightarrow> string list \<Rightarrow> ((place \<times> string option) \<times> string) list" where
  "spec_targets cur [] = []"
| "spec_targets cur (t # ts) =
     (case SECTIONS t of
        Some sec \<Rightarrow> spec_targets sec ts
      | None \<Rightarrow> (cur, t) # spec_targets cur ts)"

text \<open>
  The button entries that the spec keeps: those whose button name is in the configured
  button set, parsed, each with its target.
\<close>

definition spec_accepted ::
  "(string \<rightharpoonup> 'd) \<Rightarrow> place \<times> string option \<Rightarrow> string list
     \<Rightarrow> ((place \<times> string option) \<times> layoutEntry) list" where
  "spec_accepted btns cur ts =
     filter (\<lambda>(target, e). btns (key_of (name (buttonSpec e))) \<noteq> None)
       (map (\<lambda>(target, t). (target, parseLayoutEntry t)) (spec_targets cur ts))"

text \<open>The toolbar entry of the plan for an entry placed in a toolbar zone.\<close>

definition onToolbar :: "(place \<times> string option) \<times> layoutEntry \<Rightarrow> toolbarEntry" where
  "onToolbar p =
     \<lparr>buttonSpec = buttonSpec (snd p), allowDesktop = allowDesktop (snd p),
      allowMobile = allowMobile (snd p), zone = snd (fst p)\<rparr>"

text \<open>The entries that declare the toggle-group \<open>g\<close>, in order.\<close>

definition declaring :: "string \<Rightarrow> ((place \<times> string option) \<times> layoutEntry) list \<Rightarrow> buttonSpec list" where
  "declaring g es =
     map (\<lambda>p. buttonSpec (snd p)) (filter (\<lambda>p. toggleGroup (buttonSpec (snd p)) = Some g) es)"

text \<open>A group's list after more members have been appended.\<close>

definition extend :: "buttonSpec list option \<Rightarrow> buttonSpec list \<Rightarrow> buttonSpec list option" where
  "extend old new =
     (if new = [] then old else Some ((case old of None \<Rightarrow> [] | Some ms \<Rightarrow> ms) @ new))"

text \<open>The parser state \<open>st'\<close> is \<open>st\<close> with the entries \<open>es\<close> placed and registered.\<close>

definition parsed_as ::
  "parser \<Rightarrow> parser \<Rightarrow> ((place \<times> string option) \<times> layoutEntry) list \<Rightarrow> bool" where
  "parsed_as st st' es =
     (toolbar (result st') =
        toolbar (result st) @ map onToolbar (filter (\<lambda>p. fst (fst p) = TOOLBAR) es)
      \<and> gearmenu (result st') =
        gearmenu (result st) @ map snd (filter (\<lambda>p. fst (fst p) = GEARMENU) es)
      \<and> (\<forall>g. toggleGroups st' g =
             (if g = [] then toggleGroups st g
              else extend (toggleGroups st g) (declaring g es))))"



subsection \<open>Example configurations\<close>

definition example_button :: "string \<Rightarrow> string \<Rightarrow> button_definition" where
  "example_button n kind =
     \<lparr>def_name = n, action = JStr kind, prefix = JStr ''**'', suffix = JStr ''**'',
      exampleText = JStr ''text'', lineMode = Undefined, groupName = JStr ''more'',
      startHidden = JBool True, title = JStr n, nonIcon = Undefined,
      svg_icon = JStr ''star'', popupHover = Undefined\<rparr>"

text \<open>The scenario of the spec's section 8.\<close>

definition example_settings :: settings where
  "example_settings =
     \<lparr>buttons = [example_button ''bold'' ''surround'', example_button ''hidden1'' ''insert'',
                 example_button ''italic'' ''surround''],
      translations_setting = [],
      layout = ''STYLES|bold,shift+b|EXTRAS|X,hidden1|GEARMENU|italic''\<rparr>"

text \<open>A button \<open>tgl\<close> that toggles the group \<open>more\<close>, of which \<open>bold\<close> is a member.\<close>

definition toggle_settings :: settings where
  "toggle_settings =
     \<lparr>buttons = [example_button ''bold'' ''surround'', example_button ''tgl'' ''toggleGroup''],
      translations_setting = [],
      layout = ''bold,,more|tgl''\<rparr>"


text \<open>A single button \<open>bold\<close>, with a layout to be chosen.\<close>

definition bold_only :: "string \<Rightarrow> settings" where
  "bold_only lay =
     \<lparr>buttons = [example_button ''bold'' ''surround''], translations_setting = [], layout = lay\<rparr>"

subsection \<open>Properties of the entry parser\<close>

lemma split_nonempty: "split d s \<noteq> []"
  by (induction s) (auto split: list.splits)

lemma split_no_sep: "d \<notin> set w \<Longrightarrow> split d w = [w]"
  by (induction w) auto

lemma split_append_sep:
  "d \<notin> set w \<Longrightarrow> split d (w @ d # s) = w # split d s"
  by (induction w) auto

lemma split_join:
  "ws \<noteq> [] \<Longrightarrow> \<forall>w \<in> set ws. d \<notin> set w \<Longrightarrow> split d (join d ws) = ws"
proof (induction d ws rule: join.induct)
  case (1 d)
  then show ?case by simp
next
  case (2 d w)
  then show ?case by (simp add: split_no_sep)
next
  case (3 d w v ws)
  then show ?case by (simp add: split_append_sep)
qed

lemma join_Cons: "join d (w # ws) = (if ws = [] then w else w @ d # join d ws)"
  by (cases ws) simp_all

lemma join_split: "join d (split d s) = s"
proof (induction s)
  case Nil
  then show ?case by simp
next
  case (Cons c cs)
  show ?case
  proof (cases "c = d")
    case True
    then show ?thesis using Cons.IH by (simp add: join_Cons split_nonempty)
  next
    case False
    obtain w ws where sp: "split d cs = w # ws"
      using split_nonempty [of d cs] by (cases "split d cs") auto
    with Cons.IH have "join d (w # ws) = cs" by simp
    then have "join d ((c # w) # ws) = c # cs"
      by (simp add: join_Cons split: if_splits)
    with False sp show ?thesis by simp
  qed
qed

lemma split_fields: "w \<in> set (split d s) \<Longrightarrow> d \<notin> set w"
proof (induction s arbitrary: w)
  case Nil
  then show ?case by simp
next
  case (Cons c cs)
  show ?case
  proof (cases "c = d")
    case True
    with Cons show ?thesis by auto
  next
    case False
    obtain v vs where sp: "split d cs = v # vs"
      using split_nonempty [of d cs] by (cases "split d cs") auto
    with Cons.prems False have "w = c # v \<or> w \<in> set vs" by simp
    then show ?thesis
    proof
      assume "w = c # v"
      moreover from sp have "v \<in> set (split d cs)" by simp
      ultimately show ?thesis using Cons.IH False by auto
    next
      assume "w \<in> set vs"
      with sp have "w \<in> set (split d cs)" by simp
      then show ?thesis by (rule Cons.IH)
    qed
  qed
qed

lemma at_Cons_0: "at (x # xs) 0 = Some x"
  by (simp add: at_def)

lemma specOf_group_needs_shortcut:
  "toggleGroup (specOf ps) \<noteq> None \<Longrightarrow> shortcut (specOf ps) \<noteq> None \<and> name (specOf ps) \<noteq> None"
  unfolding specOf_def by (auto simp: at_def split: if_splits)

text \<open>
  Claim C4. In an entry whose comma-separated fields are \<open>fs\<close>, a leading \<open>X\<close> forbids both
  views, a leading \<open>M\<close> forbids the desktop, a leading \<open>D\<close> forbids the mobile view, and
  without such a flag both views are allowed; the fields after the flag are, by position,
  the button name, the shortcut and the toggle-group, each \<^verbatim>\<open>undefined\<close> when the entry is
  too short. So an entry of any form that has a toggle-group has a shortcut field and a name.
  Every entry is made of its fields in this way: joining the fields that \<open>split\<close> gives,
  none of which has a comma, gives the entry back.
\<close>

theorem parseLayoutEntry_fields:
  assumes nocomma: "\<forall>f \<in> set fs. CHR '','' \<notin> set f"
  shows
    "parseLayoutEntry (join CHR '','' (''X'' # fs)) =
       \<lparr>buttonSpec = \<lparr>name = at fs 0, shortcut = at fs 1, toggleGroup = at fs 2\<rparr>,
        allowDesktop = False, allowMobile = False\<rparr>
     \<and> parseLayoutEntry (join CHR '','' (''M'' # fs)) =
       \<lparr>buttonSpec = \<lparr>name = at fs 0, shortcut = at fs 1, toggleGroup = at fs 2\<rparr>,
        allowDesktop = False, allowMobile = True\<rparr>
     \<and> parseLayoutEntry (join CHR '','' (''D'' # fs)) =
       \<lparr>buttonSpec = \<lparr>name = at fs 0, shortcut = at fs 1, toggleGroup = at fs 2\<rparr>,
        allowDesktop = True, allowMobile = False\<rparr>
     \<and> (fs \<noteq> [] \<and> hd fs \<notin> {''X'', ''M'', ''D''} \<longrightarrow>
          parseLayoutEntry (join CHR '','' fs) =
            \<lparr>buttonSpec = \<lparr>name = at fs 0, shortcut = at fs 1, toggleGroup = at fs 2\<rparr>,
             allowDesktop = True, allowMobile = True\<rparr>)
     \<and> (\<forall>entry. toggleGroup (buttonSpec (parseLayoutEntry entry)) \<noteq> None \<longrightarrow>
          shortcut (buttonSpec (parseLayoutEntry entry)) \<noteq> None
          \<and> name (buttonSpec (parseLayoutEntry entry)) \<noteq> None)
     \<and> (\<forall>entry. join CHR '','' (split CHR '','' entry) = entry
          \<and> split CHR '','' entry \<noteq> []
          \<and> (\<forall>f \<in> set (split CHR '','' entry). CHR '','' \<notin> set f))"
proof -
  have flag: "split CHR '','' (join CHR '','' (f # fs)) = f # fs" if "CHR '','' \<notin> set f" for f
    using that nocomma by (intro split_join) auto
  have x: "split CHR '','' (join CHR '','' (''X'' # fs)) = ''X'' # fs" by (rule flag) simp
  have m: "split CHR '','' (join CHR '','' (''M'' # fs)) = ''M'' # fs" by (rule flag) simp
  have d: "split CHR '','' (join CHR '','' (''D'' # fs)) = ''D'' # fs" by (rule flag) simp
  have plain: "split CHR '','' (join CHR '','' fs) = fs" if "fs \<noteq> []"
    using that nocomma by (intro split_join) auto
  have c1: "parseLayoutEntry (join CHR '','' (''X'' # fs)) =
       \<lparr>buttonSpec = \<lparr>name = at fs 0, shortcut = at fs 1, toggleGroup = at fs 2\<rparr>,
        allowDesktop = False, allowMobile = False\<rparr>"
    unfolding parseLayoutEntry_def x by (simp add: specOf_def at_Cons_0 Let_def)
  have c2: "parseLayoutEntry (join CHR '','' (''M'' # fs)) =
       \<lparr>buttonSpec = \<lparr>name = at fs 0, shortcut = at fs 1, toggleGroup = at fs 2\<rparr>,
        allowDesktop = False, allowMobile = True\<rparr>"
    unfolding parseLayoutEntry_def m by (simp add: specOf_def at_Cons_0 Let_def)
  have c3: "parseLayoutEntry (join CHR '','' (''D'' # fs)) =
       \<lparr>buttonSpec = \<lparr>name = at fs 0, shortcut = at fs 1, toggleGroup = at fs 2\<rparr>,
        allowDesktop = True, allowMobile = False\<rparr>"
    unfolding parseLayoutEntry_def d by (simp add: specOf_def at_Cons_0 Let_def)
  have c4: "parseLayoutEntry (join CHR '','' fs) =
            \<lparr>buttonSpec = \<lparr>name = at fs 0, shortcut = at fs 1, toggleGroup = at fs 2\<rparr>,
             allowDesktop = True, allowMobile = True\<rparr>"
    if ne: "fs \<noteq> []" and noflag: "hd fs \<notin> {''X'', ''M'', ''D''}"
  proof -
    from ne obtain f fs' where fs: "fs = f # fs'" by (cases fs) auto
    with noflag have "f \<noteq> ''X''" "f \<noteq> ''M''" "f \<noteq> ''D''" by auto
    then show ?thesis
      unfolding parseLayoutEntry_def plain[OF ne] by (simp add: specOf_def fs at_Cons_0 Let_def)
  qed
  have c5: "shortcut (buttonSpec (parseLayoutEntry entry)) \<noteq> None
          \<and> name (buttonSpec (parseLayoutEntry entry)) \<noteq> None"
    if "toggleGroup (buttonSpec (parseLayoutEntry entry)) \<noteq> None" for entry
    using that specOf_group_needs_shortcut
    by (auto simp: parseLayoutEntry_def Let_def split: if_splits)
  have c6: "join CHR '','' (split CHR '','' entry) = entry
          \<and> split CHR '','' entry \<noteq> []
          \<and> (\<forall>f \<in> set (split CHR '','' entry). CHR '','' \<notin> set f)" for entry
    using join_split [of "CHR '',''" entry] split_nonempty [of "CHR '',''" entry]
      split_fields [of _ "CHR '',''" entry]
    by blast
  from c4 have c4': "fs \<noteq> [] \<and> hd fs \<notin> {''X'', ''M'', ''D''} \<longrightarrow>
          parseLayoutEntry (join CHR '','' fs) =
            \<lparr>buttonSpec = \<lparr>name = at fs 0, shortcut = at fs 1, toggleGroup = at fs 2\<rparr>,
             allowDesktop = True, allowMobile = True\<rparr>"
    by blast
  from c5 have c5': "\<forall>entry. toggleGroup (buttonSpec (parseLayoutEntry entry)) \<noteq> None \<longrightarrow>
          shortcut (buttonSpec (parseLayoutEntry entry)) \<noteq> None
          \<and> name (buttonSpec (parseLayoutEntry entry)) \<noteq> None"
    by blast
  from c6 have c6': "\<forall>entry. join CHR '','' (split CHR '','' entry) = entry
          \<and> split CHR '','' entry \<noteq> []
          \<and> (\<forall>f \<in> set (split CHR '','' entry). CHR '','' \<notin> set f)"
    by blast
  from c1 c2 c3 c4' c5' c6' show ?thesis by (intro conjI)
qed

theorem parseLayoutEntry_fields_witness:
  "parseLayoutEntry ''M,bold,,fmt'' =
     \<lparr>buttonSpec = \<lparr>name = Some ''bold'', shortcut = Some [], toggleGroup = Some ''fmt''\<rparr>,
      allowDesktop = False, allowMobile = True\<rparr>
   \<and> parseLayoutEntry ''bold,,fmt'' =
     \<lparr>buttonSpec = \<lparr>name = Some ''bold'', shortcut = Some [], toggleGroup = Some ''fmt''\<rparr>,
      allowDesktop = True, allowMobile = True\<rparr>
   \<and> shortcut (buttonSpec (parseLayoutEntry ''bold,,fmt'')) \<noteq> None"
  using parseLayoutEntry_fields [of "[''bold'', [], ''fmt'']"]
  by (simp add: at_def)

subsection \<open>Translation overrides\<close>

lemma find_first:
  "\<forall>x \<in> set pre. \<not> P x \<Longrightarrow> P e \<Longrightarrow> find P (pre @ e # post) = Some e"
  by (induction pre) auto

lemma find_none: "\<forall>x \<in> set xs. \<not> P x \<Longrightarrow> find P xs = None"
  by (induction xs) auto

lemma initializer_TRANSLATIONS:
  "TRANSLATIONS (vars (initializer st loc wn)) =
     map_option lt_translations (find (\<lambda>t. lt_locale t = loc) (translations_setting st))"
  by (simp add: initializer_def Let_def split: prod.splits)

text \<open>
  Claim C8. When the active table has an entry with the key \<open>buttonName.paramName\<close>, the
  result is the value of the first such entry; when the table has no such entry, or when
  there is no table (in particular when the \<open>translations\<close> setting has no record for the
  current locale), the result is the default value.
\<close>

theorem applyTranslation_override:
  "(\<forall>pre e post.
       TRANSLATIONS g = Some (pre @ e # post)
       \<and> (\<forall>x \<in> set pre. tr_key x \<noteq> buttonName @ ''.'' @ paramName)
       \<and> tr_key e = buttonName @ ''.'' @ paramName
       \<longrightarrow> applyTranslation g defaultValue buttonName paramName = JStr (tr_value e))
   \<and> (\<forall>ts. TRANSLATIONS g = Some ts
         \<and> (\<forall>x \<in> set ts. tr_key x \<noteq> buttonName @ ''.'' @ paramName)
       \<longrightarrow> applyTranslation g defaultValue buttonName paramName = defaultValue)
   \<and> (TRANSLATIONS g = None
       \<longrightarrow> applyTranslation g defaultValue buttonName paramName = defaultValue)
   \<and> ((\<forall>t \<in> set (translations_setting st). lt_locale t \<noteq> loc)
       \<longrightarrow> applyTranslation (vars (initializer st loc wn)) defaultValue buttonName paramName
            = defaultValue)"
proof -
  have a: "applyTranslation g defaultValue buttonName paramName = JStr (tr_value e)"
    if "TRANSLATIONS g = Some (pre @ e # post)"
      "\<forall>x \<in> set pre. tr_key x \<noteq> buttonName @ ''.'' @ paramName"
      "tr_key e = buttonName @ ''.'' @ paramName" for pre e post
    using that find_first [of pre "\<lambda>x. tr_key x = buttonName @ ''.'' @ paramName" e post]
    by (simp add: applyTranslation_def)
  have b: "applyTranslation g defaultValue buttonName paramName = defaultValue"
    if "TRANSLATIONS g = Some ts"
      "\<forall>x \<in> set ts. tr_key x \<noteq> buttonName @ ''.'' @ paramName" for ts
    using that find_none [of ts "\<lambda>x. tr_key x = buttonName @ ''.'' @ paramName"]
    by (simp add: applyTranslation_def)
  have c: "applyTranslation g defaultValue buttonName paramName = defaultValue"
    if "TRANSLATIONS g = None"
    using that by (simp add: applyTranslation_def)
  have d: "applyTranslation (vars (initializer st loc wn)) defaultValue buttonName paramName
            = defaultValue"
    if "\<forall>t \<in> set (translations_setting st). lt_locale t \<noteq> loc"
    using that find_none [of "translations_setting st" "\<lambda>t. lt_locale t = loc"]
    by (simp add: applyTranslation_def initializer_TRANSLATIONS)
  from a b c d show ?thesis by blast
qed

theorem applyTranslation_override_witness:
  "applyTranslation
     \<lparr>BUTTONS = Map.empty,
      TRANSLATIONS = Some [\<lparr>tr_key = ''foo.title'', tr_value = ''Bar''\<rparr>],
      TOGGLE_GROUPS = Map.empty, globalName = []\<rparr> (JStr ''Foo'') ''foo'' ''title'' = JStr ''Bar''
   \<and> applyTranslation
     \<lparr>BUTTONS = Map.empty,
      TRANSLATIONS = Some [\<lparr>tr_key = ''foo.title'', tr_value = ''Bar''\<rparr>],
      TOGGLE_GROUPS = Map.empty, globalName = []\<rparr> (JStr ''**'') ''foo'' ''prefix'' = JStr ''**''
   \<and> applyTranslation
     \<lparr>BUTTONS = Map.empty, TRANSLATIONS = None,
      TOGGLE_GROUPS = Map.empty, globalName = []\<rparr> (JStr ''Foo'') ''foo'' ''title'' = JStr ''Foo''
   \<and> applyTranslation (vars (initializer example_settings ''en'' [])) (JStr ''Foo'') ''foo'' ''title''
       = JStr ''Foo''"
proof -
  let ?e = "\<lparr>tr_key = ''foo.title'', tr_value = ''Bar''\<rparr>"
  let ?g = "\<lparr>BUTTONS = Map.empty, TRANSLATIONS = Some [?e],
            TOGGLE_GROUPS = Map.empty, globalName = []\<rparr> :: globals"
  let ?n = "\<lparr>BUTTONS = Map.empty, TRANSLATIONS = None,
            TOGGLE_GROUPS = Map.empty, globalName = []\<rparr> :: globals"
  have 1: "applyTranslation ?g (JStr ''Foo'') ''foo'' ''title'' = JStr ''Bar''"
    using applyTranslation_override [where g = ?g and buttonName = "''foo''"
        and paramName = "''title''" and defaultValue = "JStr ''Foo''",
        THEN conjunct1, rule_format, of "[]" ?e "[]"]
    by simp
  have 2: "applyTranslation ?g (JStr ''**'') ''foo'' ''prefix'' = JStr ''**''"
    using applyTranslation_override [where g = ?g and buttonName = "''foo''"
        and paramName = "''prefix''" and defaultValue = "JStr ''**''",
        THEN conjunct2, THEN conjunct1, rule_format, of "[?e]"]
    by simp
  have 3: "applyTranslation ?n (JStr ''Foo'') ''foo'' ''title'' = JStr ''Foo''"
    using applyTranslation_override [where g = ?n and buttonName = "''foo''"
        and paramName = "''title''" and defaultValue = "JStr ''Foo''",
        THEN conjunct2, THEN conjunct2, THEN conjunct1]
    by simp
  have 4: "applyTranslation (vars (initializer example_settings ''en'' [])) (JStr ''Foo'')
             ''foo'' ''title'' = JStr ''Foo''"
    using applyTranslation_override [where st = example_settings and loc = "''en''"
        and wn = "[]" and buttonName = "''foo''"
        and paramName = "''title''" and defaultValue = "JStr ''Foo''",
        THEN conjunct2, THEN conjunct2, THEN conjunct2]
    by (simp add: example_settings_def)
  from 1 2 3 4 show ?thesis by blast
qed

subsection \<open>Toggle groups\<close>

lemmas parse_defs = parseLayout_def parse_token_def parser_init_def has_property_def
  get_property_def SECTIONS_def objectPrototypeKeys_def parseLayoutEntry_def specOf_def at_def
  key_of_def joinToggleGroup_def place_entry_def Let_def





lemma initializer_TOGGLE_GROUPS:
  "TOGGLE_GROUPS (vars (initializer st loc wn)) =
     toggleGroups (parseLayout (map_of (rev (map (\<lambda>s. (def_name s, s)) (buttons st)))) (layout st))"
  by (simp add: initializer_def Let_def split: prod.splits)

lemma perform_toggle_no_edit: "fst (perform (ToggleAction i) ev w) = ev"
  by simp

lemma toggle_settings_groups:
  "TOGGLE_GROUPS (vars (initializer toggle_settings ''en'' [])) ''more'' =
     Some [\<lparr>name = Some ''bold'', shortcut = Some [], toggleGroup = Some ''more''\<rparr>]"
  unfolding initializer_TOGGLE_GROUPS
  by (simp add: toggle_settings_def example_button_def parse_defs)


lemma flip_consistent: "disabled (sheet (flip c)) = (\<not> isHidden (flip c))"
  by (simp add: flip_def Let_def)

lemma flip_flip: "disabled (sheet c) = (\<not> isHidden c) \<Longrightarrow> flip (flip c) = c"
  by (simp add: flip_def Let_def)

lemma perform_consistent: "consistent i w \<Longrightarrow> consistent i (snd (perform act ev w))"
proof (induction act arbitrary: ev)
  case (ToggleAction j)
  then show ?case
    by (cases "j = i") (auto simp: consistent_def flip_consistent nth_list_update)
qed (simp_all add: consistent_def)

lemma run_consistent: "consistent i w \<Longrightarrow> consistent i (run cs w)"
  by (induction cs arbitrary: w) (auto simp: perform_consistent)

lemma toggle_twice_id:
  assumes "consistent i w"
  shows "perform (ToggleAction i) ev2 (snd (perform (ToggleAction i) ev1 w)) = (ev2, w)"
proof -
  from assms have i: "i < length (closures w)"
    and c: "disabled (sheet (closures w ! i)) = (\<not> isHidden (closures w ! i))"
    by (simp_all add: consistent_def)
  have "(closures w)[i := flip (flip (closures w ! i))] = closures w"
    using c by (simp add: flip_flip)
  with i show ?thesis by simp
qed

lemma foldl_hideRules_disabled: "disabled (foldl hideRules s ms) = disabled s"
  by (induction ms arbitrary: s) (simp_all add: hideRules_def insertRule_def Let_def)

lemma makeToggleAction_Inr:
  assumes "makeToggleAction g bn grp sh w0 = (Inr act, w1)"
  shows "act = ToggleAction (length (closures w0))"
    and "consistent (length (closures w0)) w1"
    and "isHidden (closures w1 ! length (closures w0)) = truthy sh"
  using assms
  by (auto simp: makeToggleAction_def Let_def consistent_def foldl_hideRules_disabled
      split: property.splits)

text \<open>
  Claim C7. For a toggle action that was built, from any start value of \<open>startHidden\<close> and
  after any sequence \<open>cs\<close> of clicks on any callbacks: calling the callback twice gives back
  the whole state, so the group's hidden flag and the sheet's disabled flag have their
  values from before the first call; one call alone inverts both flags and leaves the edit
  context as it was.
\<close>

theorem toggle_twice_restores:
  assumes "makeToggleAction g buttonName grp startHid w0 = (Inr act, w1)"
  shows "perform act ev2 (snd (perform act ev1 (run cs w1))) = (ev2, run cs w1)
       \<and> fst (perform act ev1 (run cs w1)) = ev1
       \<and> (\<exists>i. act = ToggleAction i \<and> i < length (closures (run cs w1))
             \<and> isHidden (closures w1 ! i) = truthy startHid
             \<and> disabled (sheet (closures w1 ! i)) = (\<not> truthy startHid)
             \<and> isHidden (closures (snd (perform act ev1 (run cs w1))) ! i)
                 = (\<not> isHidden (closures (run cs w1) ! i))
             \<and> disabled (sheet (closures (snd (perform act ev1 (run cs w1))) ! i))
                 = (\<not> disabled (sheet (closures (run cs w1) ! i))))"
proof -
  let ?i = "length (closures w0)"
  let ?w = "run cs w1"
  from makeToggleAction_Inr [OF assms]
  have act: "act = ToggleAction ?i" and c1: "consistent ?i w1"
    and h: "isHidden (closures w1 ! ?i) = truthy startHid" by simp_all
  from c1 have c: "consistent ?i ?w" by (rule run_consistent)
  then have i: "?i < length (closures ?w)"
    and d: "disabled (sheet (closures ?w ! ?i)) = (\<not> isHidden (closures ?w ! ?i))"
    by (simp_all add: consistent_def)
  have twice: "perform act ev2 (snd (perform act ev1 ?w)) = (ev2, ?w)"
    unfolding act by (rule toggle_twice_id [OF c])
  have same: "fst (perform act ev1 ?w) = ev1"
    unfolding act by simp
  have d1: "disabled (sheet (closures w1 ! ?i)) = (\<not> truthy startHid)"
    using c1 h by (simp add: consistent_def)
  have flipped: "isHidden (closures (snd (perform act ev1 ?w)) ! ?i)
                 = (\<not> isHidden (closures ?w ! ?i))"
    unfolding act using i by (simp add: flip_def Let_def)
  have flipped': "disabled (sheet (closures (snd (perform act ev1 ?w)) ! ?i))
                 = (\<not> disabled (sheet (closures ?w ! ?i)))"
    unfolding act using i d by (simp add: flip_def Let_def)
  from twice same act i h d1 flipped flipped' show ?thesis by blast
qed

theorem toggle_twice_restores_witness:
  "fst (makeToggleAction (vars (initializer toggle_settings ''en'' [])) ''tgl''
          (JStr ''more'') (JBool True) emptyWorld) = Inr (ToggleAction 0)
   \<and> perform (ToggleAction 0) \<lparr>selected = \<lparr>sel_start = 0, sel_value = []\<rparr>, edits = []\<rparr>
        (snd (perform (ToggleAction 0) \<lparr>selected = \<lparr>sel_start = 0, sel_value = []\<rparr>, edits = []\<rparr>
          (snd (makeToggleAction (vars (initializer toggle_settings ''en'' [])) ''tgl''
                  (JStr ''more'') (JBool True) emptyWorld))))
       = (\<lparr>selected = \<lparr>sel_start = 0, sel_value = []\<rparr>, edits = []\<rparr>,
          snd (makeToggleAction (vars (initializer toggle_settings ''en'' [])) ''tgl''
                  (JStr ''more'') (JBool True) emptyWorld))"
proof -
  let ?g = "vars (initializer toggle_settings ''en'' [])"
  let ?m = "makeToggleAction ?g ''tgl'' (JStr ''more'') (JBool True) emptyWorld"
  let ?ev = "\<lparr>selected = \<lparr>sel_start = 0, sel_value = []\<rparr>, edits = []\<rparr>"
  have f: "fst ?m = Inr (ToggleAction 0)"
    by (simp add: makeToggleAction_def get_property_def toggle_settings_groups Let_def
        emptyWorld_def)
  then have m: "?m = (Inr (ToggleAction 0), snd ?m)"
    by (metis prod.collapse)
  have t: "perform (ToggleAction 0) ?ev (snd (perform (ToggleAction 0) ?ev (snd ?m)))
             = (?ev, snd ?m)"
    using toggle_twice_restores [OF m, where ?ev1.0 = ?ev and ?ev2.0 = ?ev and cs = "[]",
        THEN conjunct1]
    by (simp only: run.simps)
  from f t show ?thesis by (rule conjI)
qed



subsection \<open>Trimming the selection\<close>

lemma scanWhitespace_takeWhile:
  "i \<le> length v \<Longrightarrow> scanWhitespace v i = i + length (takeWhile is_whitespace (drop i v))"
proof (induction v i rule: scanWhitespace.induct)
  case (1 v i)
  show ?case
  proof (cases "i < length v \<and> is_whitespace (v ! i)")
    case True
    then have d: "drop i v = v ! i # drop (Suc i) v"
      by (simp add: Cons_nth_drop_Suc)
    from True have "scanWhitespace v i = scanWhitespace v (Suc i)"
      by (subst scanWhitespace.simps) simp
    also have "\<dots> = Suc i + length (takeWhile is_whitespace (drop (Suc i) v))"
      using "1.IH" True by simp
    finally show ?thesis using True d by simp
  next
    case False
    then have "scanWhitespace v i = i"
      by (subst scanWhitespace.simps) auto
    moreover have "takeWhile is_whitespace (drop i v) = []"
    proof (cases "i < length v")
      case True
      with False have "\<not> is_whitespace (v ! i)" by simp
      moreover from True have "drop i v = v ! i # drop (Suc i) v"
        by (simp add: Cons_nth_drop_Suc)
      ultimately show ?thesis by simp
    next
      case False
      then show ?thesis by simp
    qed
    ultimately show ?thesis by simp
  qed
qed

lemma scanWhitespace_0: "scanWhitespace v 0 = length (takeWhile is_whitespace v)"
  using scanWhitespace_takeWhile [of 0 v] by simp

lemma drop_takeWhile_length: "drop (length (takeWhile P xs)) xs = dropWhile P xs"
  by (induction xs) auto

lemma trimLeading_eq:
  "trimLeading sel =
     sel\<lparr>sel_start := sel_start sel + length (takeWhile is_whitespace (sel_value sel)),
         sel_value := dropWhile is_whitespace (sel_value sel)\<rparr>"
proof (cases "takeWhile is_whitespace (sel_value sel) = []")
  case True
  then have "dropWhile is_whitespace (sel_value sel) = sel_value sel"
    by (metis append_Nil takeWhile_dropWhile_id)
  with True show ?thesis
    by (simp add: trimLeading_def scanWhitespace_0)
next
  case False
  then show ?thesis
    by (simp add: trimLeading_def scanWhitespace_0 Let_def drop_takeWhile_length)
qed

lemma dropWhile_not_head: "takeWhile P (dropWhile P xs) = []"
  by (induction xs) auto


subsection \<open>Building buttons\<close>


lemma setI18nProperty_cases: "\<exists>k w'. setI18nProperty bn pn v w = (k, w')"
  by (simp add: setI18nProperty_def)








lemma initializer_popupMenu:
  "popupMenu (initializer st loc wn) =
     fst (foldl (registerPopup (vars (initializer st loc wn))) ([], [], emptyWorld)
            (gearmenu (plan_of (initializer st loc wn))))"
  by (simp add: initializer_def Let_def emptyWorld_def split: prod.splits)



subsection \<open>The plan and what is shown\<close>





lemma initializer_plan:
  "plan_of (initializer st loc wn) =
     result (parseLayout (BUTTONS (vars (initializer st loc wn))) (layout st))"
  by (simp add: initializer_def Let_def split: prod.splits)


lemmas build_defs = makeCommonButtonOptions_def makeAction_def makeToggleAction_def
  makeSurroundAction_def makeListAction_def makeInsertAction_def setI18nProperty_def
  applyTranslation_def makeButtonIdentifier_def CBBKEY_def
  example_button_def prototypeMember_def emptyWorld_def

lemma example_vars:
  "vars (initializer example_settings loc wn) =
     \<lparr>BUTTONS = map_of [(''italic'', example_button ''italic'' ''surround''),
                        (''hidden1'', example_button ''hidden1'' ''insert''),
                        (''bold'', example_button ''bold'' ''surround'')],
      TRANSLATIONS = None,
      TOGGLE_GROUPS = toggleGroups (parseLayout
          (map_of [(''italic'', example_button ''italic'' ''surround''),
                   (''hidden1'', example_button ''hidden1'' ''insert''),
                   (''bold'', example_button ''bold'' ''surround'')])
          ''STYLES|bold,shift+b|EXTRAS|X,hidden1|GEARMENU|italic''),
      globalName = wn\<rparr>"
  by (simp add: initializer_def example_settings_def Let_def example_button_def
      split: prod.splits)

lemma example_plan:
  "plan_of (initializer example_settings loc wn) =
   \<lparr>toolbar =
      [\<lparr>buttonSpec = \<lparr>name = Some ''bold'', shortcut = Some ''shift+b'', toggleGroup = None\<rparr>,
        allowDesktop = True, allowMobile = True, zone = Some ''fontStyles''\<rparr>,
       \<lparr>buttonSpec = \<lparr>name = Some ''hidden1'', shortcut = None, toggleGroup = None\<rparr>,
        allowDesktop = False, allowMobile = False, zone = Some ''extras''\<rparr>],
    gearmenu =
      [\<lparr>buttonSpec = \<lparr>name = Some ''italic'', shortcut = None, toggleGroup = None\<rparr>,
        allowDesktop = True, allowMobile = True\<rparr>]\<rparr>"
  unfolding initializer_plan example_vars
  by (simp add: example_settings_def parse_defs)














subsection \<open>Popup options\<close>

lemma addPopup_action:
  assumes "addPopupMenuButtonWithCondition g api spec aD aM w = (Inr api', w')"
  shows "\<exists>opts w1 opt. makeCommonButtonOptions g spec w = (Inr opts, w1)
      \<and> api' = api @ [opt] \<and> pm_action opt = PopupAction (opt_action opts)
      \<and> pm_name opt = globalName g"
proof -
  obtain r w1 where m: "makeCommonButtonOptions g spec w = (r, w1)"
    by (cases "makeCommonButtonOptions g spec w") auto
  show ?thesis
  proof (cases r)
    case (Inl err)
    with assms m show ?thesis by (simp add: addPopupMenuButtonWithCondition_def)
  next
    case (Inr opts)
    obtain k w2 where h: "setI18nProperty (opt_buttonName opts) ''hover''
                   (applyTranslation g (popupHover (opt_definition opts))
                      (opt_buttonName opts) ''popupHover'') w1 = (k, w2)"
      using setI18nProperty_cases by blast
    let ?opt = "\<lparr>pm_icon = opt_icon opts,
                   pm_label = opt_titleKey opts,
                   pm_title = (case k of
                                 Some k' \<Rightarrow> ''composer.'' @ k'
                               | None \<Rightarrow> opt_titleKey opts),
                   pm_name = globalName g,
                   pm_shortcut = shortcut spec,
                   pm_action = PopupAction (opt_action opts),
                   pm_condition = (\<lambda>isDesktop.
                      (isDesktop \<and> aD) \<or> (\<not> isDesktop \<and> aM))\<rparr>"
    from assms m Inr h have "api' = api @ [?opt]"
      by (simp add: addPopupMenuButtonWithCondition_def)
    moreover have "pm_action ?opt = PopupAction (opt_action opts)" "pm_name ?opt = globalName g"
      by simp_all
    moreover from m Inr have "makeCommonButtonOptions g spec w = (Inr opts, w1)" by simp
    ultimately show ?thesis by blast
  qed
qed

lemma registerPopup_inv:
  assumes "\<forall>opt \<in> set (fst acc). (\<exists>act. pm_action opt = PopupAction act) \<and> pm_name opt = globalName g"
  shows "\<forall>opt \<in> set (fst (registerPopup g acc e)).
           (\<exists>act. pm_action opt = PopupAction act) \<and> pm_name opt = globalName g"
proof -
  obtain api errs w where acc: "acc = (api, errs, w)" by (cases acc) auto
  obtain r w' where r: "addPopupMenuButtonWithCondition g api (buttonSpec e)
                          (allowDesktop e) (allowMobile e) w = (r, w')"
    by (cases "addPopupMenuButtonWithCondition g api (buttonSpec e)
                 (allowDesktop e) (allowMobile e) w") auto
  show ?thesis
  proof (cases r)
    case (Inl err)
    with assms acc r show ?thesis by (simp add: registerPopup_def)
  next
    case (Inr api')
    with r have "addPopupMenuButtonWithCondition g api (buttonSpec e)
                   (allowDesktop e) (allowMobile e) w = (Inr api', w')" by simp
    from addPopup_action [OF this] obtain opt where opt: "api' = api @ [opt]"
      "\<exists>act. pm_action opt = PopupAction act" "pm_name opt = globalName g"
      by blast
    have "fst (registerPopup g acc e) = api @ [opt]"
      using acc r Inr opt(1) by (simp add: registerPopup_def)
    with assms acc opt(2,3) show ?thesis by auto
  qed
qed

lemma foldl_registerPopup_inv:
  "\<forall>opt \<in> set (fst acc). (\<exists>act. pm_action opt = PopupAction act) \<and> pm_name opt = globalName g \<Longrightarrow>
   \<forall>opt \<in> set (fst (foldl (registerPopup g) acc es)).
     (\<exists>act. pm_action opt = PopupAction act) \<and> pm_name opt = globalName g"
proof (induction es arbitrary: acc)
  case Nil
  then show ?case by simp
next
  case (Cons e es)
  from Cons.prems have "\<forall>opt \<in> set (fst (registerPopup g acc e)).
           (\<exists>act. pm_action opt = PopupAction act) \<and> pm_name opt = globalName g"
    by (rule registerPopup_inv)
  then have "\<forall>opt \<in> set (fst (foldl (registerPopup g) (registerPopup g acc e) es)).
     (\<exists>act. pm_action opt = PopupAction act) \<and> pm_name opt = globalName g"
    by (rule Cons.IH)
  then show ?case by simp
qed

lemma initializer_globalName: "globalName (vars (initializer st loc wn)) = wn"
  by (simp add: initializer_def Let_def split: prod.splits)

lemma popupMenu_inv:
  "\<forall>opt \<in> set (popupMenu (initializer st loc wn)).
     (\<exists>act. pm_action opt = PopupAction act) \<and> pm_name opt = wn"
proof -
  have "\<forall>opt \<in> set (fst (foldl (registerPopup (vars (initializer st loc wn)))
                ([], [], emptyWorld) (gearmenu (plan_of (initializer st loc wn))))).
     (\<exists>act. pm_action opt = PopupAction act)
     \<and> pm_name opt = globalName (vars (initializer st loc wn))"
    by (rule foldl_registerPopup_inv) simp
  then show ?thesis
    unfolding initializer_popupMenu [symmetric] initializer_globalName .
qed

text \<open>
  Claim C10. \<open>trimLeading\<close> adds to the start offset the length of the longest prefix of
  whitespace code units and keeps the rest of the value: the old value is that prefix
  followed by the new value, no other prefix of whitespace is longer, and trimming twice is
  trimming once. The click callback of every popup option that is registered runs the
  button's action on the edit context with the trimmed selection.
\<close>

theorem trimLeading_spec:
  "sel_start (trimLeading sel) =
      sel_start sel + length (takeWhile is_whitespace (sel_value sel))
   \<and> sel_value (trimLeading sel) = dropWhile is_whitespace (sel_value sel)
   \<and> sel_value sel = takeWhile is_whitespace (sel_value sel) @ sel_value (trimLeading sel)
   \<and> (\<forall>p. (\<exists>r. sel_value sel = p @ r) \<and> (\<forall>c \<in> set p. is_whitespace c)
          \<longrightarrow> length p \<le> length (takeWhile is_whitespace (sel_value sel)))
   \<and> trimLeading (trimLeading sel) = trimLeading sel
   \<and> (\<forall>api' w'. addPopupMenuButtonWithCondition g api spec allowD allowM w = (Inr api', w')
         \<longrightarrow> (\<exists>opts w1 opt. makeCommonButtonOptions g spec w = (Inr opts, w1)
                \<and> api' = api @ [opt]
                \<and> (\<forall>ev s. perform (pm_action opt) ev s =
                      perform (opt_action opts) (ev\<lparr>selected := trimLeading (selected ev)\<rparr>) s)))
   \<and> (\<forall>opt \<in> set (popupMenu (initializer st loc wn)).
         \<exists>act. \<forall>ev s. perform (pm_action opt) ev s =
                  perform act (ev\<lparr>selected := trimLeading (selected ev)\<rparr>) s)"
proof -
  have maxi: "length p \<le> length (takeWhile is_whitespace (sel_value sel))"
    if "sel_value sel = p @ r" "\<forall>c \<in> set p. is_whitespace c" for p r
    using that by (simp add: takeWhile_append2)
  have idem: "trimLeading (trimLeading sel) = trimLeading sel"
    by (simp add: trimLeading_eq dropWhile_not_head)
  have reg: "\<exists>opts w1 opt. makeCommonButtonOptions g spec w = (Inr opts, w1)
                \<and> api' = api @ [opt]
                \<and> (\<forall>ev s. perform (pm_action opt) ev s =
                      perform (opt_action opts) (ev\<lparr>selected := trimLeading (selected ev)\<rparr>) s)"
    if "addPopupMenuButtonWithCondition g api spec allowD allowM w = (Inr api', w')"
    for api' w'
  proof -
    from addPopup_action [OF that] obtain opts w1 opt where
      "makeCommonButtonOptions g spec w = (Inr opts, w1)" "api' = api @ [opt]"
      "pm_action opt = PopupAction (opt_action opts)" by blast
    then show ?thesis by simp
  qed
  have every: "\<exists>act. \<forall>ev s. perform (pm_action opt) ev s =
                  perform act (ev\<lparr>selected := trimLeading (selected ev)\<rparr>) s"
    if "opt \<in> set (popupMenu (initializer st loc wn))" for opt
  proof -
    from popupMenu_inv that obtain act where "pm_action opt = PopupAction act" by blast
    then have "\<forall>ev s. perform (pm_action opt) ev s =
                  perform act (ev\<lparr>selected := trimLeading (selected ev)\<rparr>) s" by simp
    then show ?thesis ..
  qed
  have parts: "sel_start (trimLeading sel) =
      sel_start sel + length (takeWhile is_whitespace (sel_value sel))"
    "sel_value (trimLeading sel) = dropWhile is_whitespace (sel_value sel)"
    "sel_value sel = takeWhile is_whitespace (sel_value sel) @ sel_value (trimLeading sel)"
    by (simp_all add: trimLeading_eq)
  have maxi': "\<forall>p. (\<exists>r. sel_value sel = p @ r) \<and> (\<forall>c \<in> set p. is_whitespace c)
          \<longrightarrow> length p \<le> length (takeWhile is_whitespace (sel_value sel))"
    using maxi by blast
  have reg': "\<forall>api' w'. addPopupMenuButtonWithCondition g api spec allowD allowM w = (Inr api', w')
         \<longrightarrow> (\<exists>opts w1 opt. makeCommonButtonOptions g spec w = (Inr opts, w1)
                \<and> api' = api @ [opt]
                \<and> (\<forall>ev s. perform (pm_action opt) ev s =
                      perform (opt_action opts) (ev\<lparr>selected := trimLeading (selected ev)\<rparr>) s))"
    using reg by (intro allI impI)
  have every': "\<forall>opt \<in> set (popupMenu (initializer st loc wn)).
         \<exists>act. \<forall>ev s. perform (pm_action opt) ev s =
                  perform act (ev\<lparr>selected := trimLeading (selected ev)\<rparr>) s"
    using every by (intro ballI)
  from parts maxi' idem reg' every' show ?thesis by (intro conjI)
qed

lemma example_popupMenu:
  "map (\<lambda>opt. (pm_label opt, pm_name opt, pm_action opt))
       (popupMenu (initializer example_settings loc wn)) =
     [(''composer.ComposerButtonBonanza.italic.title'', wn,
       PopupAction (SurroundAction (JStr ''**'') (JStr ''**'')
          (Some ''ComposerButtonBonanza.italic.exampleText'') Undefined))]"
  unfolding initializer_popupMenu example_plan example_vars
  by (simp add: registerPopup_def addPopupMenuButtonWithCondition_def build_defs
      get_property_def key_of_def Let_def)

theorem trimLeading_spec_witness:
  "trimLeading \<lparr>sel_start = 4, sel_value = [0x20, 0x09, 0x41, 0x20]\<rparr>
     = \<lparr>sel_start = 6, sel_value = [0x41, 0x20]\<rparr>
   \<and> popupMenu (initializer example_settings ''en'' []) \<noteq> []
   \<and> (\<exists>act. \<forall>ev s.
          perform (pm_action (hd (popupMenu (initializer example_settings ''en'' [])))) ev s =
            perform act (ev\<lparr>selected := trimLeading (selected ev)\<rparr>) s)"
proof -
  let ?sel = "\<lparr>sel_start = 4, sel_value = [0x20, 0x09, 0x41, 0x20]\<rparr>"
  note t = trimLeading_spec [where sel = ?sel and st = example_settings and loc = "''en''"
      and wn = "[]" and g = "vars (initializer example_settings ''en'' [])" and api = "[]"
      and spec = "\<lparr>name = Some ''italic'', shortcut = None, toggleGroup = None\<rparr>"
      and allowD = True and allowM = True and w = emptyWorld]
  have ws: "is_whitespace 0x20" "is_whitespace 0x09" "\<not> is_whitespace 0x41"
    by (simp_all add: is_whitespace_def)
  from t have "sel_start (trimLeading ?sel) = 6" "sel_value (trimLeading ?sel) = [0x41, 0x20]"
    by (simp_all add: ws)
  then have 1: "trimLeading ?sel = \<lparr>sel_start = 6, sel_value = [0x41, 0x20]\<rparr>"
    by (cases "trimLeading ?sel") simp
  from t have every: "\<forall>opt \<in> set (popupMenu (initializer example_settings ''en'' [])).
         \<exists>act. \<forall>ev s. perform (pm_action opt) ev s =
                  perform act (ev\<lparr>selected := trimLeading (selected ev)\<rparr>) s"
    by blast
  have 2: "popupMenu (initializer example_settings ''en'' []) \<noteq> []"
    using example_popupMenu [of "''en''" "[]"] by auto
  then have "hd (popupMenu (initializer example_settings ''en'' []))
               \<in> set (popupMenu (initializer example_settings ''en'' []))"
    by simp
  with every have 3: "\<exists>act. \<forall>ev s.
          perform (pm_action (hd (popupMenu (initializer example_settings ''en'' [])))) ev s =
            perform act (ev\<lparr>selected := trimLeading (selected ev)\<rparr>) s"
    by (rule bspec)
  from 1 2 3 show ?thesis by (intro conjI)
qed

text \<open>
  Claim C9 at the spec's scenario: the option registered for \<open>italic\<close> has in its field
  \<open>name\<close> the value of the global \<open>name\<close> (the empty string, or \<open>main\<close>), not the
  identifier \<open>ComposerButtonBonanza-btn-italic\<close>.
\<close>

theorem popup_option_name_is_global_name:
  "map (\<lambda>opt. (pm_label opt, pm_name opt)) (popupMenu (initializer example_settings ''en'' []))
     = [(''composer.ComposerButtonBonanza.italic.title'', [])]
   \<and> map (\<lambda>opt. (pm_label opt, pm_name opt)) (popupMenu (initializer example_settings ''en'' ''main''))
     = [(''composer.ComposerButtonBonanza.italic.title'', ''main'')]
   \<and> makeButtonIdentifier ''italic'' = ''ComposerButtonBonanza-btn-italic''"
  unfolding initializer_popupMenu example_plan example_vars
  by (simp add: registerPopup_def addPopupMenuButtonWithCondition_def build_defs
      get_property_def key_of_def Let_def)

lemma initializer_BUTTONS:
  "BUTTONS (vars (initializer st loc wn)) = map_of (rev (map (\<lambda>s. (def_name s, s)) (buttons st)))"
  by (simp add: initializer_def Let_def split: prod.splits)

lemma bold_only_plan:
  "plan_of (initializer (bold_only lay) loc wn) =
     result (parseLayout (map_of [(''bold'', example_button ''bold'' ''surround'')]) lay)"
  unfolding initializer_plan initializer_BUTTONS
  by (simp add: bold_only_def example_button_def)

text \<open>
  Claim C1 at the layout \<open>toString|bold\<close>, with \<open>bold\<close> configured: the token
  \<open>toString\<close> is taken for a section, since \<^verbatim>\<open>in\<close> finds it on \<^verbatim>\<open>Object.prototype\<close>, and
  the entry \<open>bold\<close> after it gets no plan entry (the placement raises an error). After an
  unknown name that is not inherited, \<open>bold\<close> is placed in \<open>extras\<close>.
\<close>

theorem inherited_section_drops_button:
  "plan_of (initializer (bold_only ''toString|bold'') ''en'' []) = \<lparr>toolbar = [], gearmenu = []\<rparr>
   \<and> console (parseLayout (map_of [(''bold'', example_button ''bold'' ''surround'')])
                ''toString|bold'') = [(''bold'', UnknownPlacementType)]
   \<and> plan_of (initializer (bold_only ''nosuch|bold'') ''en'' []) =
       \<lparr>toolbar =
          [\<lparr>buttonSpec = \<lparr>name = Some ''bold'', shortcut = None, toggleGroup = None\<rparr>,
            allowDesktop = True, allowMobile = True, zone = Some ''extras''\<rparr>],
        gearmenu = []\<rparr>"
  unfolding bold_only_plan
  by (simp add: parse_defs)

text \<open>
  Claim C2 at the layout \<open>toString,ctrl+t|bold\<close>, with only \<open>bold\<close> configured: the
  entry that names the button \<open>toString\<close>, which is not configured, is put in the plan, and
  nothing is logged for it.
\<close>

theorem unknown_inherited_name_is_planned:
  "map_of [(''bold'', example_button ''bold'' ''surround'')] ''toString'' = None
   \<and> plan_of (initializer (bold_only ''toString,ctrl+t|bold'') ''en'' []) =
       \<lparr>toolbar =
          [\<lparr>buttonSpec = \<lparr>name = Some ''toString'', shortcut = Some ''ctrl+t'', toggleGroup = None\<rparr>,
            allowDesktop = True, allowMobile = True, zone = Some ''extras''\<rparr>,
           \<lparr>buttonSpec = \<lparr>name = Some ''bold'', shortcut = None, toggleGroup = None\<rparr>,
            allowDesktop = True, allowMobile = True, zone = Some ''extras''\<rparr>],
        gearmenu = []\<rparr>
   \<and> console (parseLayout (map_of [(''bold'', example_button ''bold'' ''surround'')])
                ''toString,ctrl+t|bold'') = []"
  unfolding bold_only_plan
  by (simp add: parse_defs)

text \<open>
  Claim C5 at the layout \<open>bold,,constructor\<close>, with \<open>bold\<close> configured: the entry
  declares the toggle-group \<open>constructor\<close>, yet that group gets no member list; the entry is
  dropped with a TypeError. With the group name \<open>more\<close> the list is created with the entry.
\<close>

theorem inherited_group_name_has_no_members:
  "toggleGroup (buttonSpec (parseLayoutEntry ''bold,,constructor'')) = Some ''constructor''
   \<and> toggleGroups (parseLayout (map_of [(''bold'', example_button ''bold'' ''surround'')])
                     ''bold,,constructor'') ''constructor'' = None
   \<and> console (parseLayout (map_of [(''bold'', example_button ''bold'' ''surround'')])
                ''bold,,constructor'') = [(''bold,,constructor'', TypeError)]
   \<and> plan_of (initializer (bold_only ''bold,,constructor'') ''en'' []) =
       \<lparr>toolbar = [], gearmenu = []\<rparr>
   \<and> toggleGroups (parseLayout (map_of [(''bold'', example_button ''bold'' ''surround'')])
                     ''bold,,more'') ''more'' =
       Some [\<lparr>name = Some ''bold'', shortcut = Some [], toggleGroup = Some ''more''\<rparr>]"
  unfolding bold_only_plan
  by (simp add: parse_defs)

subsection \<open>The parser on layouts without inherited names\<close>

text \<open>
  On a layout none of whose tokens, button names and toggle-groups is a key of
  \<^verbatim>\<open>Object.prototype\<close>, the parser does what the spec describes: every button entry with a
  configured name gets exactly one plan entry, in the order of the tokens, in the zone
  current at its token; the other entries are left out; and the list of a toggle-group is
  that of the entries taken that declare it.
\<close>

lemma SECTIONS_not_inherited: "SECTIONS t = Some sec \<Longrightarrow> \<not> inheritedName t"
  by (auto simp: SECTIONS_def inheritedName_def objectPrototypeKeys_def split: if_splits)

lemma get_property_plain:
  "\<not> inheritedName k \<Longrightarrow>
   get_property obj k = (case obj k of None \<Rightarrow> Missing | Some v \<Rightarrow> Own v)"
  by (simp add: get_property_def inheritedName_def split: option.splits)

lemma has_property_plain: "\<not> inheritedName k \<Longrightarrow> has_property obj k = (obj k \<noteq> None)"
  by (simp add: has_property_def get_property_plain split: option.splits)

lemma SECTIONS_place:
  "SECTIONS t = Some sec \<Longrightarrow> sec = (GEARMENU, None) \<or> (\<exists>z. sec = (TOOLBAR, Some z))"
  by (auto simp: SECTIONS_def split: if_splits)

text \<open>One step on a plain token.\<close>

lemma parse_token_section:
  assumes "SECTIONS t = Some sec"
  shows "parse_token btns st t = st\<lparr>currentSection := Own sec\<rparr>"
  using assms by (simp add: parse_token_def has_property_def get_property_def)

lemma parse_token_unknown:
  assumes "plainToken t" "SECTIONS t = None"
    "btns (key_of (name (buttonSpec (parseLayoutEntry t)))) = None"
  shows "parse_token btns st t =
           st\<lparr>console := console st @
                [(t, UnknownButton (key_of (name (buttonSpec (parseLayoutEntry t)))))]\<rparr>"
  using assms
  by (simp add: parse_token_def plainToken_def has_property_plain Let_def)

lemma joinToggleGroup_plain:
  assumes "\<not> inheritedName (key_of (toggleGroup spec))"
  shows "joinToggleGroup groups spec =
           Inr (case toggleGroup spec of
                  None \<Rightarrow> groups
                | Some g \<Rightarrow> if g = [] then groups
                            else groups(g \<mapsto> (case groups g of None \<Rightarrow> [] | Some ms \<Rightarrow> ms) @ [spec]))"
  using assms
  by (auto simp: joinToggleGroup_def get_property_plain key_of_def split: option.splits)

lemma parse_token_known:
  assumes "plainToken t" "SECTIONS t = None"
    "btns (key_of (name (buttonSpec (parseLayoutEntry t)))) \<noteq> None"
    "currentSection st = Own cur"
  shows "parse_token btns st t =
           st\<lparr>toggleGroups :=
                 (case toggleGroup (buttonSpec (parseLayoutEntry t)) of
                    None \<Rightarrow> toggleGroups st
                  | Some g \<Rightarrow> if g = [] then toggleGroups st
                              else (toggleGroups st)(g \<mapsto>
                                (case toggleGroups st g of None \<Rightarrow> [] | Some ms \<Rightarrow> ms)
                                  @ [buttonSpec (parseLayoutEntry t)])),
               result :=
                 (if fst cur = TOOLBAR
                  then (result st)\<lparr>toolbar := toolbar (result st)
                          @ [onToolbar (cur, parseLayoutEntry t)]\<rparr>
                  else (result st)\<lparr>gearmenu := gearmenu (result st) @ [parseLayoutEntry t]\<rparr>)\<rparr>"
proof -
  let ?e = "parseLayoutEntry t"
  from assms(1) have p: "\<not> inheritedName t" "\<not> inheritedName (key_of (name (buttonSpec ?e)))"
    "\<not> inheritedName (key_of (toggleGroup (buttonSpec ?e)))"
    by (simp_all add: plainToken_def)
  have h1: "\<not> has_property SECTIONS t" using assms(2) p(1) by (simp add: has_property_plain)
  have h2: "has_property btns (key_of (name (buttonSpec ?e)))"
    using assms(3) p(2) by (simp add: has_property_plain)
  obtain pl z where cur: "cur = (pl, z)" by (cases cur) auto
  show ?thesis
    unfolding parse_token_def Let_def
    using h1 h2 assms(4) cur
    by (cases pl) (simp_all add: joinToggleGroup_plain [OF p(3)] place_entry_def onToolbar_def)
qed

lemma spec_accepted_Nil: "spec_accepted btns cur [] = []"
  by (simp add: spec_accepted_def)

lemma spec_accepted_section:
  "SECTIONS t = Some sec \<Longrightarrow> spec_accepted btns cur (t # ts) = spec_accepted btns sec ts"
  by (simp add: spec_accepted_def)

lemma spec_accepted_unknown:
  "SECTIONS t = None \<Longrightarrow> btns (key_of (name (buttonSpec (parseLayoutEntry t)))) = None \<Longrightarrow>
   spec_accepted btns cur (t # ts) = spec_accepted btns cur ts"
  by (simp add: spec_accepted_def)

lemma spec_accepted_known:
  "SECTIONS t = None \<Longrightarrow> btns (key_of (name (buttonSpec (parseLayoutEntry t)))) \<noteq> None \<Longrightarrow>
   spec_accepted btns cur (t # ts) = (cur, parseLayoutEntry t) # spec_accepted btns cur ts"
  by (auto simp: spec_accepted_def)

lemma extend_Nil: "extend old [] = old"
  by (simp add: extend_def)

lemma extend_Cons:
  "extend old (x # xs) = extend (Some ((case old of None \<Rightarrow> [] | Some ms \<Rightarrow> ms) @ [x])) xs"
  by (simp add: extend_def)

lemma place_cases: "pl \<noteq> TOOLBAR \<longleftrightarrow> pl = GEARMENU"
  by (cases pl) auto

lemma foldl_parse_token_plain:
  assumes "\<forall>t \<in> set ts. plainToken t" "currentSection st = Own cur"
  shows "parsed_as st (foldl (parse_token btns) st ts) (spec_accepted btns cur ts)"
  using assms
proof (induction ts arbitrary: st cur)
  case Nil
  then show ?case by (simp add: parsed_as_def spec_accepted_Nil declaring_def extend_def)
next
  case (Cons t ts)
  from Cons.prems have pt: "plainToken t" and rest: "\<forall>t \<in> set ts. plainToken t" by simp_all
  show ?case
  proof (cases "SECTIONS t")
    case (Some sec)
    let ?st = "st\<lparr>currentSection := Own sec\<rparr>"
    have step: "parse_token btns st t = ?st" using Some by (rule parse_token_section)
    have "parsed_as ?st (foldl (parse_token btns) ?st ts) (spec_accepted btns sec ts)"
      by (rule Cons.IH [OF rest]) simp
    then show ?thesis
      using Some by (simp add: step spec_accepted_section parsed_as_def)
  next
    case None
    show ?thesis
    proof (cases "btns (key_of (name (buttonSpec (parseLayoutEntry t))))")
      case unk: None
      let ?st = "st\<lparr>console := console st @
                [(t, UnknownButton (key_of (name (buttonSpec (parseLayoutEntry t)))))]\<rparr>"
      have step: "parse_token btns st t = ?st"
        using parse_token_unknown [where btns = btns and t = t and st = st] pt None unk
        by simp
      have "parsed_as ?st (foldl (parse_token btns) ?st ts) (spec_accepted btns cur ts)"
        by (rule Cons.IH [OF rest]) (simp add: Cons.prems(2))
      then show ?thesis
        using None unk by (simp add: step spec_accepted_unknown parsed_as_def)
    next
      case (Some d)
      let ?e = "parseLayoutEntry t"
      have known: "btns (key_of (name (buttonSpec ?e))) \<noteq> None" using Some by simp
      let ?st = "parse_token btns st t"
      note step = parse_token_known [where btns = btns and t = t and st = st and cur = cur,
          OF pt None known Cons.prems(2)]
      have cs: "currentSection ?st = Own cur"
        unfolding step using Cons.prems(2) by simp
      have ih: "parsed_as ?st (foldl (parse_token btns) ?st ts) (spec_accepted btns cur ts)"
        by (rule Cons.IH [OF rest cs])
      have tb: "toolbar (result ?st) =
                  toolbar (result st) @ (if fst cur = TOOLBAR then [onToolbar (cur, ?e)] else [])"
        unfolding step by simp
      have gm: "gearmenu (result ?st) =
                  gearmenu (result st) @ (if fst cur = GEARMENU then [?e] else [])"
        unfolding step by (cases "fst cur") simp_all
      have tg: "toggleGroups ?st g =
                  (if g = [] then toggleGroups st g
                   else if toggleGroup (buttonSpec ?e) = Some g
                        then Some ((case toggleGroups st g of None \<Rightarrow> [] | Some ms \<Rightarrow> ms)
                                     @ [buttonSpec ?e])
                        else toggleGroups st g)" for g
        unfolding step by (auto split: option.splits)
      have "parsed_as st (foldl (parse_token btns) ?st ts) ((cur, ?e) # spec_accepted btns cur ts)"
        using ih unfolding parsed_as_def tb gm tg
        by (auto simp: declaring_def extend_Cons)
      then show ?thesis
        using None known by (simp add: spec_accepted_known)
    qed
  qed
qed

lemma parseLayout_plain:
  assumes "\<forall>t \<in> set (split CHR ''|'' lay). plainToken t"
  shows "parsed_as parser_init (parseLayout btns lay)
           (spec_accepted btns (TOOLBAR, Some ''extras'') (split CHR ''|'' lay))"
  unfolding parseLayout_def
  by (rule foldl_parse_token_plain [OF assms])
     (simp add: parser_init_def get_property_def SECTIONS_def)

lemma parseLayout_plain_plan:
  assumes "\<forall>t \<in> set (split CHR ''|'' lay). plainToken t"
  shows "toolbar (result (parseLayout btns lay)) =
           map onToolbar (filter (\<lambda>p. fst (fst p) = TOOLBAR)
             (spec_accepted btns (TOOLBAR, Some ''extras'') (split CHR ''|'' lay)))"
    and "gearmenu (result (parseLayout btns lay)) =
           map snd (filter (\<lambda>p. fst (fst p) = GEARMENU)
             (spec_accepted btns (TOOLBAR, Some ''extras'') (split CHR ''|'' lay)))"
    and "length (toolbar (result (parseLayout btns lay)))
           + length (gearmenu (result (parseLayout btns lay))) =
         length (spec_accepted btns (TOOLBAR, Some ''extras'') (split CHR ''|'' lay))"
proof -
  let ?es = "spec_accepted btns (TOOLBAR, Some ''extras'') (split CHR ''|'' lay)"
  from parseLayout_plain [OF assms, of btns]
  have tb: "toolbar (result (parseLayout btns lay)) =
              map onToolbar (filter (\<lambda>p. fst (fst p) = TOOLBAR) ?es)"
    and gm: "gearmenu (result (parseLayout btns lay)) =
              map snd (filter (\<lambda>p. fst (fst p) = GEARMENU) ?es)"
    by (simp_all add: parsed_as_def parser_init_def)
  show "toolbar (result (parseLayout btns lay)) =
          map onToolbar (filter (\<lambda>p. fst (fst p) = TOOLBAR) ?es)" by (rule tb)
  show "gearmenu (result (parseLayout btns lay)) =
          map snd (filter (\<lambda>p. fst (fst p) = GEARMENU) ?es)" by (rule gm)
  have "length (filter (\<lambda>p. fst (fst p) = TOOLBAR) xs)
          + length (filter (\<lambda>p. fst (fst p) = GEARMENU) xs) = length xs"
    for xs :: "((place \<times> string option) \<times> layoutEntry) list"
  proof (induction xs)
    case Nil
    then show ?case by simp
  next
    case (Cons x xs)
    then show ?case by (cases "fst (fst x)") simp_all
  qed
  then show "length (toolbar (result (parseLayout btns lay)))
           + length (gearmenu (result (parseLayout btns lay))) = length ?es"
    unfolding tb gm by simp
qed

lemma parseLayout_plain_groups:
  assumes "\<forall>t \<in> set (split CHR ''|'' lay). plainToken t"
  shows "toggleGroups (parseLayout btns lay) g =
           (if g = [] \<or> declaring g (spec_accepted btns (TOOLBAR, Some ''extras'')
                                      (split CHR ''|'' lay)) = []
            then None
            else Some (declaring g (spec_accepted btns (TOOLBAR, Some ''extras'')
                                      (split CHR ''|'' lay))))"
  using parseLayout_plain [OF assms, of btns]
  by (simp add: parsed_as_def parser_init_def extend_def)

end
